theory Spec2Isabelle
  imports Complex_Main
begin

section \<open>The gas-price sampler of \<^verbatim>\<open>GasOptimizer\<close>\<close>

text \<open>
  A shallow embedding of the class \<^verbatim>\<open>GasOptimizer\<close>: its two fields are a record that
  every operation takes and returns, a rejected promise or a thrown exception is the
  left injection of a sum, and every call to the wallet provider is written to a log
  that the operation returns next to its result.

  Numbers. A JavaScript number is a binary64 value. Here a finite number is the rational
  it denotes and \<open>+\<close>, \<open>-\<close>, \<open>*\<close>, \<open>/\<close> on finite numbers are exact: the rounding of
  binary64 arithmetic is not part of the model. \<open>Infinity\<close>, \<open>-Infinity\<close> and \<open>NaN\<close>
  are kept, since the code uses \<open>Infinity\<close> and divides by a live price that can be 0.
  A zero is always the positive zero (no expression of the code yields \<open>-0\<close> as a divisor).
\<close>

subsection \<open>JavaScript values\<close>

datatype error = Error string | TypeError string

datatype number = Fin rat | Infinity | NegInfinity | NaN

fun num_less :: "number \<Rightarrow> number \<Rightarrow> bool" where
  "num_less NaN _ = False"
| "num_less _ NaN = False"
| "num_less (Fin a) (Fin b) = (a < b)"
| "num_less Infinity _ = False"
| "num_less _ Infinity = True"
| "num_less _ NegInfinity = False"
| "num_less NegInfinity _ = True"

fun num_sub :: "number \<Rightarrow> number \<Rightarrow> number" where
  "num_sub NaN _ = NaN"
| "num_sub _ NaN = NaN"
| "num_sub (Fin a) (Fin b) = Fin (a - b)"
| "num_sub Infinity Infinity = NaN"
| "num_sub NegInfinity NegInfinity = NaN"
| "num_sub Infinity _ = Infinity"
| "num_sub NegInfinity _ = NegInfinity"
| "num_sub (Fin a) Infinity = NegInfinity"
| "num_sub (Fin a) NegInfinity = Infinity"

fun num_mul :: "number \<Rightarrow> number \<Rightarrow> number" where
  "num_mul NaN _ = NaN"
| "num_mul _ NaN = NaN"
| "num_mul (Fin a) (Fin b) = Fin (a * b)"
| "num_mul (Fin a) Infinity = (if a = 0 then NaN else if 0 < a then Infinity else NegInfinity)"
| "num_mul (Fin a) NegInfinity = (if a = 0 then NaN else if 0 < a then NegInfinity else Infinity)"
| "num_mul Infinity (Fin b) = (if b = 0 then NaN else if 0 < b then Infinity else NegInfinity)"
| "num_mul NegInfinity (Fin b) = (if b = 0 then NaN else if 0 < b then NegInfinity else Infinity)"
| "num_mul Infinity Infinity = Infinity"
| "num_mul NegInfinity NegInfinity = Infinity"
| "num_mul Infinity NegInfinity = NegInfinity"
| "num_mul NegInfinity Infinity = NegInfinity"

fun num_div :: "number \<Rightarrow> number \<Rightarrow> number" where
  "num_div NaN _ = NaN"
| "num_div _ NaN = NaN"
| "num_div (Fin a) (Fin b) =
     (if b \<noteq> 0 then Fin (a / b)
      else if a = 0 then NaN else if 0 < a then Infinity else NegInfinity)"
| "num_div (Fin a) _ = Fin 0"
| "num_div Infinity (Fin b) = (if b < 0 then NegInfinity else Infinity)"
| "num_div NegInfinity (Fin b) = (if b < 0 then Infinity else NegInfinity)"
| "num_div _ _ = NaN"

text \<open>\<^verbatim>\<open>Math.round\<close>: the nearest integer, a half going up.\<close>

fun Math_round :: "number \<Rightarrow> number" where
  "Math_round (Fin q) = Fin (of_int \<lfloor>q + 1 / 2\<rfloor>)"
| "Math_round x = x"

text \<open>\<^verbatim>\<open>Math.min(...xs)\<close>: the least argument, \<open>Infinity\<close> when there is none.\<close>

definition Math_min :: "rat list \<Rightarrow> number" where
  "Math_min xs = foldl (\<lambda>m x. if num_less (Fin x) m then Fin x else m) Infinity xs"

text \<open>\<^verbatim>\<open>Number(v)\<close> for \<^verbatim>\<open>v: bigint | null\<close>: \<^verbatim>\<open>Number(null)\<close> is 0.\<close>

fun Number :: "int option \<Rightarrow> rat" where
  "Number None = 0"
| "Number (Some n) = of_int n"

subsection \<open>The host: time zone and number formatting\<close>

text \<open>
  What the code takes from the JavaScript host and not from its arguments:
  \<open>LocalTZA t\<close> is the offset in milliseconds of the host's local time from UTC at the
  time value \<open>t\<close>, and \<open>NumberToString x\<close> is the host's rendering of a number
  \<open>x \<ge> 10\<^sup>2\<^sup>1\<close>, which \<^verbatim>\<open>toFixed\<close> falls back to (it depends on the binary64
  digits of \<open>x\<close>).
\<close>

record host =
  LocalTZA :: "int \<Rightarrow> int"
  NumberToString :: "rat \<Rightarrow> string"

text \<open>The decimal digits of a natural number, as a template literal renders an integer.\<close>

fun digits :: "nat \<Rightarrow> string" where
  "digits n =
     (if n < 10 then [''0123456789'' ! n]
      else digits (n div 10) @ [''0123456789'' ! (n mod 10)])"

declare digits.simps [simp del]

text \<open>
  \<^verbatim>\<open>x.toFixed(1)\<close>: a number that is not finite is rendered by name; otherwise the sign,
  then the integer \<open>n\<close> nearest to \<open>10 * |x|\<close> (the larger one on a tie), padded to two
  digits, with a point before the last digit.
\<close>

definition toFixed1 :: "host \<Rightarrow> number \<Rightarrow> string" where
  "toFixed1 h x =
     (case x of
        NaN \<Rightarrow> ''NaN''
      | Infinity \<Rightarrow> ''Infinity''
      | NegInfinity \<Rightarrow> ''-Infinity''
      | Fin q \<Rightarrow>
          (let s = (if q < 0 then ''-'' else '''');
               a = \<bar>q\<bar>
           in if 10 ^ 21 \<le> a then s @ NumberToString h a
              else
                (let n = nat \<lfloor>a * 10 + 1 / 2\<rfloor>;
                     m = digits n;
                     m = (if length m \<le> 1 then ''0'' @ m else m)
                 in s @ butlast m @ ''.'' @ [last m])))"

text \<open>
  \<^verbatim>\<open>new Date(t).getHours()\<close>: \<open>None\<close> stands for \<open>NaN\<close>, the answer of an invalid
  date (a time value beyond 8.64e15 ms); otherwise the hour of the local time.
\<close>

definition getHours :: "host \<Rightarrow> int \<Rightarrow> nat option" where
  "getHours h t =
     (if 8640000000000000 < \<bar>t\<bar> then None
      else Some (nat (((t + LocalTZA h t) div 3600000) mod 24)))"

text \<open>The hour of the same time value in UTC (\<^verbatim>\<open>getUTCHours\<close>), which the code does not call.\<close>

definition getUTCHours :: "int \<Rightarrow> nat option" where
  "getUTCHours t =
     (if 8640000000000000 < \<bar>t\<bar> then None
      else Some (nat ((t div 3600000) mod 24)))"

subsection \<open>The data of the sampler\<close>

text \<open>
  What the code reads of an \<^verbatim>\<open>ethers\<close> block and of its fee data; the field
  \<^verbatim>\<open>timestamp\<close> of a block is \<open>block_timestamp\<close> here, apart from the one of a sample.
\<close>

record Block =
  block_timestamp :: int
  baseFeePerGas :: "int option"

record FeeData =
  gasPrice :: "int option"

text \<open>
  The provider, as far as one run of an operation sees it: the outcome of each call,
  \<open>Inl\<close> for a rejected promise. Within one run every block number is asked for once,
  so a function from the number to the outcome covers a provider that changes over time.
\<close>

record BrowserProvider =
  getBlockNumber :: "error + int"
  getBlock :: "int \<Rightarrow> error + Block option"
  getFeeData :: "error + FeeData"

datatype call = GetBlockNumber | GetBlock int | GetFeeData

record GasData =
  timestamp :: int
  price :: rat
  priority :: rat

record GasRecommendation =
  bestTime :: string
  estimatedSavings :: string
  currentGwei :: number
  historicalLow :: number
  batchingRecommendation :: string

record GasOptimizer =
  historicalData :: "GasData list"
  provider :: "BrowserProvider option"

text \<open>The instance that \<^verbatim>\<open>getInstance\<close> constructs.\<close>

definition new_GasOptimizer :: GasOptimizer where
  "new_GasOptimizer = \<lparr>historicalData = [], provider = None\<rparr>"

subsection \<open>\<^verbatim>\<open>updateHistoricalData\<close> and \<^verbatim>\<open>initialize\<close>\<close>

text \<open>
  The loop \<^verbatim>\<open>for (let i = 0; i < 100; i++)\<close>, from the counter \<open>i\<close> on, with the array
  \<open>blocks\<close> built so far. \<open>rnd i\<close> is what \<^verbatim>\<open>Math.random()\<close> returns in round \<open>i\<close>.
  The second component is the list of the provider calls made, in order. A rejected
  \<^verbatim>\<open>getBlock\<close> leaves the loop at once.
\<close>

function fetch_blocks ::
  "BrowserProvider \<Rightarrow> (nat \<Rightarrow> rat) \<Rightarrow> int \<Rightarrow> nat \<Rightarrow> GasData list
     \<Rightarrow> (error + GasData list) \<times> call list" where
  "fetch_blocks p rnd currentBlock i blocks =
     (if i < 100 then
        (case getBlock p (currentBlock - int i) of
           Inl e \<Rightarrow> (Inl e, [GetBlock (currentBlock - int i)])
         | Inr None \<Rightarrow>
             (let (r, cs) = fetch_blocks p rnd currentBlock (Suc i) blocks
              in (r, GetBlock (currentBlock - int i) # cs))
         | Inr (Some block) \<Rightarrow>
             (let (r, cs) = fetch_blocks p rnd currentBlock (Suc i)
                  (blocks @ [\<lparr>timestamp = block_timestamp block * 1000,
                              price = Number (baseFeePerGas block) / 1000000000,
                              priority = rnd i * 2 + 1 / 2\<rparr>])
              in (r, GetBlock (currentBlock - int i) # cs)))
      else (Inr blocks, []))"
  by pat_completeness auto
termination
  by (relation "measure (\<lambda>(p, rnd, currentBlock, i, blocks). 100 - i)") auto

declare fetch_blocks.simps [simp del]

text \<open>
  \<^verbatim>\<open>updateHistoricalData\<close>: the result, the new state and the provider calls. The
  \<^verbatim>\<open>try\<close>/\<^verbatim>\<open>catch\<close> around the whole body turns every rejection into a normal return
  (after \<^verbatim>\<open>console.error\<close>), with \<open>historicalData\<close> not assigned.
\<close>

definition updateHistoricalData ::
  "(nat \<Rightarrow> rat) \<Rightarrow> GasOptimizer \<Rightarrow> (error + unit) \<times> GasOptimizer \<times> call list" where
  "updateHistoricalData rnd s =
     (case provider s of
        None \<Rightarrow> (Inr (), s, [])
      | Some p \<Rightarrow>
          (case getBlockNumber p of
             Inl e \<Rightarrow> (Inr (), s, [GetBlockNumber])
           | Inr currentBlock \<Rightarrow>
               (case fetch_blocks p rnd currentBlock 0 [] of
                  (Inl e, cs) \<Rightarrow> (Inr (), s, GetBlockNumber # cs)
                | (Inr blocks, cs) \<Rightarrow>
                    (Inr (), s\<lparr>historicalData := blocks\<rparr>, GetBlockNumber # cs))))"

definition initialize ::
  "BrowserProvider \<Rightarrow> (nat \<Rightarrow> rat) \<Rightarrow> GasOptimizer
     \<Rightarrow> (error + unit) \<times> GasOptimizer \<times> call list" where
  "initialize p rnd s = updateHistoricalData rnd (s\<lparr>provider := Some p\<rparr>)"

subsection \<open>\<^verbatim>\<open>getGasRecommendation\<close> and \<^verbatim>\<open>getHistoricalData\<close>\<close>

text \<open>
  An element \<^verbatim>\<open>{ sum, count }\<close> of \<^verbatim>\<open>hourlyAverages\<close>; the fields are \<open>hsum\<close> and
  \<open>hcount\<close> here.
\<close>

record bucket =
  hsum :: rat
  hcount :: nat

text \<open>
  The \<^verbatim>\<open>forEach\<close> over the window. For an invalid date the index is \<open>NaN\<close>,
  \<^verbatim>\<open>hourlyAverages[NaN]\<close> is \<^verbatim>\<open>undefined\<close> and reading its \<^verbatim>\<open>sum\<close> throws.
\<close>

fun forEach_hourly :: "host \<Rightarrow> bucket list \<Rightarrow> GasData list \<Rightarrow> error + bucket list" where
  "forEach_hourly h hourlyAverages [] = Inr hourlyAverages"
| "forEach_hourly h hourlyAverages (d # ds) =
     (case getHours h (timestamp d) of
        None \<Rightarrow> Inl (TypeError ''Cannot read properties of undefined (reading 'sum')'')
      | Some hour \<Rightarrow>
          forEach_hourly h
            (hourlyAverages[hour :=
               \<lparr>hsum = hsum (hourlyAverages ! hour) + price d,
                hcount = hcount (hourlyAverages ! hour) + 1\<rparr>]) ds)"

text \<open>
  The \<^verbatim>\<open>reduce\<close> that picks the hour: \<open>best\<close> is the pair \<^verbatim>\<open>{ hour, avg }\<close>, \<open>hour\<close> the
  index of the head of the list.
\<close>

fun reduce_best :: "nat \<times> number \<Rightarrow> nat \<Rightarrow> bucket list \<Rightarrow> nat \<times> number" where
  "reduce_best best hour [] = best"
| "reduce_best best hour (current # rest) =
     (let avg = (if 0 < hcount current
                 then Fin (hsum current / of_nat (hcount current)) else Infinity)
      in reduce_best (if num_less avg (snd best) then (hour, avg) else best) (Suc hour) rest)"

definition getGasRecommendation ::
  "host \<Rightarrow> GasOptimizer \<Rightarrow> (error + GasRecommendation) \<times> call list" where
  "getGasRecommendation h s =
     (case provider s of
        None \<Rightarrow> (Inl (Error ''Gas optimizer not initialized''), [])
      | Some p \<Rightarrow>
          if length (historicalData s) = 0
          then (Inl (Error ''Gas optimizer not initialized''), [])
          else
            (case getFeeData p of
               Inl e \<Rightarrow> (Inl e, [GetFeeData])
             | Inr currentFeeData \<Rightarrow>
                 (let currentGwei = Fin (Number (gasPrice currentFeeData) / 1000000000);
                      historicalLow = Math_min (map price (historicalData s));
                      avgPrice =
                        num_div (Fin (foldl (\<lambda>sum d. sum + price d) 0 (historicalData s)))
                          (Fin (of_nat (length (historicalData s))))
                  in case forEach_hourly h
                            (replicate 24 \<lparr>hsum = 0, hcount = 0\<rparr>) (historicalData s) of
                       Inl e \<Rightarrow> (Inl e, [GetFeeData])
                     | Inr hourlyAverages \<Rightarrow>
                         (let bestHour = fst (reduce_best (0, Infinity) 0 hourlyAverages);
                              potentialSavings =
                                num_mul
                                  (num_div (num_sub currentGwei historicalLow) currentGwei)
                                  (Fin 100);
                              shouldBatch = num_less (num_mul avgPrice (Fin (6 / 5))) currentGwei
                          in (Inr \<lparr>bestTime =
                                     digits bestHour @ '':00 - ''
                                       @ digits ((bestHour + 1) mod 24) @ '':00 UTC'',
                                   estimatedSavings = toFixed1 h potentialSavings @ ''%'',
                                   currentGwei = Math_round currentGwei,
                                   historicalLow = Math_round historicalLow,
                                   batchingRecommendation =
                                     (if shouldBatch
                                      then ''Batching transactions recommended for optimal gas savings''
                                      else ''Individual transactions acceptable at current gas prices'')\<rparr>,
                              [GetFeeData])))))"

definition getHistoricalData :: "GasOptimizer \<Rightarrow> error + GasData list" where
  "getHistoricalData s = Inr (historicalData s)"

subsection \<open>Notions used in the statements\<close>

text \<open>
  The sample that round \<open>i\<close> of the loop pushes: the object literal of the loop body
  when \<^verbatim>\<open>getBlock(currentBlock - i)\<close> resolves to a block, nothing when it resolves to
  \<^verbatim>\<open>null\<close> (or rejects).
\<close>

definition sample_at :: "BrowserProvider \<Rightarrow> (nat \<Rightarrow> rat) \<Rightarrow> int \<Rightarrow> nat \<Rightarrow> GasData option" where
  "sample_at p rnd currentBlock i =
     (case getBlock p (currentBlock - int i) of
        Inr (Some block) \<Rightarrow>
          Some \<lparr>timestamp = block_timestamp block * 1000,
                price = Number (baseFeePerGas block) / 1000000000,
                priority = rnd i * 2 + 1 / 2\<rparr>
      | _ \<Rightarrow> None)"

text \<open>
  The states of the singleton: the constructed instance, and what any call of
  \<^verbatim>\<open>initialize\<close> (any provider, any random draws) makes of a state.
\<close>

inductive reachable :: "GasOptimizer \<Rightarrow> bool" where
  constructed: "reachable new_GasOptimizer"
| initialized: "reachable s \<Longrightarrow> reachable (fst (snd (initialize p rnd s)))"

text \<open>
  The prices of the samples of a window that fall in hour \<open>k\<close> of the host's local
  time, as \<^verbatim>\<open>getHours\<close> gives it, and their mean.
\<close>

definition hour_prices :: "host \<Rightarrow> GasData list \<Rightarrow> nat \<Rightarrow> rat list" where
  "hour_prices h ds k = map price (filter (\<lambda>d. getHours h (timestamp d) = Some k) ds)"

definition hour_mean :: "host \<Rightarrow> GasData list \<Rightarrow> nat \<Rightarrow> rat" where
  "hour_mean h ds k = sum_list (hour_prices h ds k) / of_nat (length (hour_prices h ds k))"

text \<open>
  The value \<open>avg\<close> that the \<^verbatim>\<open>reduce\<close> computes for a bucket, and what the
  accumulator \<open>best\<close> of the \<^verbatim>\<open>reduce\<close> is after the buckets below \<open>i\<close>: the initial
  pair while every bucket so far was empty, and otherwise the first bucket of the least
  average so far.
\<close>

definition bucket_avg :: "bucket \<Rightarrow> number" where
  "bucket_avg current =
     (if 0 < hcount current then Fin (hsum current / of_nat (hcount current)) else Infinity)"

definition best_so_far :: "bucket list \<Rightarrow> nat \<times> number \<Rightarrow> nat \<Rightarrow> bool" where
  "best_so_far bs best i \<longleftrightarrow>
     (snd best = Infinity \<and> fst best = 0 \<and> (\<forall>k<i. bucket_avg (bs ! k) = Infinity)) \<or>
     (fst best < i \<and> snd best = bucket_avg (bs ! fst best) \<and> snd best \<noteq> Infinity \<and>
      (\<forall>k<i. \<not> num_less (bucket_avg (bs ! k)) (snd best)) \<and>
      (\<forall>k<fst best. num_less (snd best) (bucket_avg (bs ! k))))"

subsection \<open>Concrete hosts and providers\<close>

definition utc_host :: host where
  "utc_host = \<lparr>LocalTZA = (\<lambda>t. 0), NumberToString = (\<lambda>x. [])\<rparr>"

text \<open>A host whose local time is one hour ahead of UTC all year.\<close>

definition utc_plus_1_host :: host where
  "utc_plus_1_host = \<lparr>LocalTZA = (\<lambda>t. 3600000), NumberToString = (\<lambda>x. [])\<rparr>"

definition no_random :: "nat \<Rightarrow> rat" where
  "no_random i = 0"

text \<open>
  The scenario of the specification: head 1000; three blocks, two in hour 0 with base
  fees of 10 and 12 gwei and one in hour 5 with 6 gwei; every older block is
  \<^verbatim>\<open>null\<close>; the live price is 20 gwei.
\<close>

definition example_getBlock :: "int \<Rightarrow> error + Block option" where
  "example_getBlock n =
     (if n = 1000 then Inr (Some \<lparr>block_timestamp = 0, baseFeePerGas = Some 10000000000\<rparr>)
      else if n = 999 then Inr (Some \<lparr>block_timestamp = 60, baseFeePerGas = Some 12000000000\<rparr>)
      else if n = 998 then Inr (Some \<lparr>block_timestamp = 18000, baseFeePerGas = Some 6000000000\<rparr>)
      else Inr None)"

definition example_provider :: BrowserProvider where
  "example_provider =
     \<lparr>getBlockNumber = Inr 1000, getBlock = example_getBlock,
      getFeeData = Inr \<lparr>gasPrice = Some 20000000000\<rparr>\<rparr>"

definition example_state :: GasOptimizer where
  "example_state = fst (snd (initialize example_provider no_random new_GasOptimizer))"

text \<open>A provider none of whose calls can be answered.\<close>

definition offline_getBlock :: "int \<Rightarrow> error + Block option" where
  "offline_getBlock n = Inl (Error ''network error'')"

definition offline_provider :: BrowserProvider where
  "offline_provider =
     \<lparr>getBlockNumber = Inl (Error ''network error''), getBlock = offline_getBlock,
      getFeeData = Inl (Error ''network error'')\<rparr>"

text \<open>A provider that answers for the head block 1000 and rejects every other block read.\<close>

definition flaky_getBlock :: "int \<Rightarrow> error + Block option" where
  "flaky_getBlock n =
     (if n = 1000 then Inr (Some \<lparr>block_timestamp = 0, baseFeePerGas = Some 10000000000\<rparr>)
      else Inl (Error ''timeout''))"

definition flaky_provider :: BrowserProvider where
  "flaky_provider =
     \<lparr>getBlockNumber = Inr 1000, getBlock = flaky_getBlock,
      getFeeData = Inr \<lparr>gasPrice = Some 20000000000\<rparr>\<rparr>"

text \<open>The example window with a provider whose fee data cannot be read.\<close>

definition no_fee_state :: GasOptimizer where
  "no_fee_state =
     example_state\<lparr>provider := Some (example_provider\<lparr>getFeeData := Inl (Error ''fee data unavailable'')\<rparr>)\<rparr>"

text \<open>
  One block, of 14 November 2023, 22:13:20 UTC, with a base fee of 0.6 gwei; the live
  price is 1.4 gwei.
\<close>

definition cheap_getBlock :: "int \<Rightarrow> error + Block option" where
  "cheap_getBlock n =
     (if n = 18570000
      then Inr (Some \<lparr>block_timestamp = 1700000000, baseFeePerGas = Some 600000000\<rparr>)
      else Inr None)"

definition cheap_provider :: BrowserProvider where
  "cheap_provider =
     \<lparr>getBlockNumber = Inr 18570000, getBlock = cheap_getBlock,
      getFeeData = Inr \<lparr>gasPrice = Some 1400000000\<rparr>\<rparr>"

definition cheap_state :: GasOptimizer where
  "cheap_state = fst (snd (initialize cheap_provider no_random new_GasOptimizer))"

text \<open>
  Two blocks, the head one without a base fee and its parent with 30 gwei; the live price
  is 25 gwei.
\<close>

definition legacy_getBlock :: "int \<Rightarrow> error + Block option" where
  "legacy_getBlock n =
     (if n = 5 then Inr (Some \<lparr>block_timestamp = 1700000000, baseFeePerGas = None\<rparr>)
      else if n = 4
      then Inr (Some \<lparr>block_timestamp = 1699999988, baseFeePerGas = Some 30000000000\<rparr>)
      else Inr None)"

definition legacy_provider :: BrowserProvider where
  "legacy_provider =
     \<lparr>getBlockNumber = Inr 5, getBlock = legacy_getBlock,
      getFeeData = Inr \<lparr>gasPrice = Some 25000000000\<rparr>\<rparr>"

section \<open>Properties\<close>

subsection \<open>The loop\<close>

lemma fetch_blocks_done:
  "\<not> i < 100 \<Longrightarrow> fetch_blocks p rnd currentBlock i blocks = (Inr blocks, [])"
  by (simp add: fetch_blocks.simps [of p rnd currentBlock i])

lemma fetch_blocks_reject:
  "i < 100 \<Longrightarrow> getBlock p (currentBlock - int i) = Inl e \<Longrightarrow>
   fetch_blocks p rnd currentBlock i blocks = (Inl e, [GetBlock (currentBlock - int i)])"
  by (simp add: fetch_blocks.simps [of p rnd currentBlock i])

lemma fetch_blocks_null:
  "i < 100 \<Longrightarrow> getBlock p (currentBlock - int i) = Inr None \<Longrightarrow>
   fetch_blocks p rnd currentBlock i blocks =
     (fst (fetch_blocks p rnd currentBlock (Suc i) blocks),
      GetBlock (currentBlock - int i) # snd (fetch_blocks p rnd currentBlock (Suc i) blocks))"
  by (simp add: fetch_blocks.simps [of p rnd currentBlock i] case_prod_beta)

lemma fetch_blocks_block:
  "i < 100 \<Longrightarrow> getBlock p (currentBlock - int i) = Inr (Some block) \<Longrightarrow>
   fetch_blocks p rnd currentBlock i blocks =
     (fst (fetch_blocks p rnd currentBlock (Suc i)
             (blocks @ [\<lparr>timestamp = block_timestamp block * 1000,
                         price = Number (baseFeePerGas block) / 1000000000,
                         priority = rnd i * 2 + 1 / 2\<rparr>])),
      GetBlock (currentBlock - int i) #
      snd (fetch_blocks p rnd currentBlock (Suc i)
             (blocks @ [\<lparr>timestamp = block_timestamp block * 1000,
                         price = Number (baseFeePerGas block) / 1000000000,
                         priority = rnd i * 2 + 1 / 2\<rparr>])))"
  by (simp add: fetch_blocks.simps [of p rnd currentBlock i] case_prod_beta)

text \<open>When no read rejects, the loop runs its 100 rounds and keeps the retrieved blocks.\<close>

lemma fetch_blocks_complete:
  "\<forall>j. i \<le> j \<and> j < 100 \<longrightarrow> (\<forall>e. getBlock p (currentBlock - int j) \<noteq> Inl e) \<Longrightarrow>
   fetch_blocks p rnd currentBlock i blocks =
     (Inr (blocks @ List.map_filter (sample_at p rnd currentBlock) [i..<100]),
      map (\<lambda>j. GetBlock (currentBlock - int j)) [i..<100])"
proof (induction p rnd currentBlock i blocks rule: fetch_blocks.induct)
  case (1 p rnd currentBlock i blocks)
  show ?case
  proof (cases "i < 100")
    case False
    then show ?thesis by (simp add: fetch_blocks_done)
  next
    case True
    then have upt: "[i..<100] = i # [Suc i..<100]" by (simp add: upt_conv_Cons)
    from "1.prems" True have nofail: "\<forall>e. getBlock p (currentBlock - int i) \<noteq> Inl e" by simp
    from "1.prems"
    have rest: "\<forall>j. Suc i \<le> j \<and> j < 100 \<longrightarrow> (\<forall>e. getBlock p (currentBlock - int j) \<noteq> Inl e)"
      by simp
    show ?thesis
    proof (cases "getBlock p (currentBlock - int i)")
      case (Inl e)
      with nofail show ?thesis by simp
    next
      case (Inr ob)
      show ?thesis
      proof (cases ob)
        case None
        with Inr True "1.IH"(1) [OF True Inr None rest] show ?thesis
          by (simp add: fetch_blocks_null upt sample_at_def)
      next
        case (Some block)
        with Inr True "1.IH"(2) [OF True Inr Some rest] show ?thesis
          by (simp add: fetch_blocks_block upt sample_at_def)
      qed
    qed
  qed
qed

text \<open>A loop that completes has met no rejection.\<close>

lemma fetch_blocks_Inr_no_reject:
  "fst (fetch_blocks p rnd currentBlock i blocks) = Inr bs \<Longrightarrow> i \<le> j \<Longrightarrow> j < 100 \<Longrightarrow>
   getBlock p (currentBlock - int j) \<noteq> Inl e"
proof (induction p rnd currentBlock i blocks rule: fetch_blocks.induct)
  case (1 p rnd currentBlock i blocks)
  from "1.prems" have True: "i < 100" by simp
  show ?case
  proof (cases "getBlock p (currentBlock - int i)")
    case (Inl e')
    with True "1.prems" show ?thesis by (simp add: fetch_blocks_reject)
  next
    case (Inr ob)
    show ?thesis
    proof (cases "j = i")
      case True
      with Inr show ?thesis by simp
    next
      case False
      with "1.prems" have j: "Suc i \<le> j" by simp
      show ?thesis
      proof (cases ob)
        case None
        from "1.prems" True Inr None
        have "fst (fetch_blocks p rnd currentBlock (Suc i) blocks) = Inr bs"
          by (simp add: fetch_blocks_null)
        from "1.IH"(1) [OF True Inr None this j "1.prems"(3)] show ?thesis .
      next
        case (Some block)
        from "1.prems" True Inr Some
        have "fst (fetch_blocks p rnd currentBlock (Suc i)
                 (blocks @ [\<lparr>timestamp = block_timestamp block * 1000,
                             price = Number (baseFeePerGas block) / 1000000000,
                             priority = rnd i * 2 + 1 / 2\<rparr>])) = Inr bs"
          by (simp add: fetch_blocks_block)
        from "1.IH"(2) [OF True Inr Some this j "1.prems"(3)] show ?thesis .
      qed
    qed
  qed
qed

text \<open>The first rejected read is the last call of the loop.\<close>

lemma fetch_blocks_rejected:
  "i \<le> k \<Longrightarrow> k < 100 \<Longrightarrow> getBlock p (currentBlock - int k) = Inl e \<Longrightarrow>
   \<forall>j. i \<le> j \<and> j < k \<longrightarrow> (\<forall>e'. getBlock p (currentBlock - int j) \<noteq> Inl e') \<Longrightarrow>
   fetch_blocks p rnd currentBlock i blocks =
     (Inl e, map (\<lambda>j. GetBlock (currentBlock - int j)) [i..<Suc k])"
proof (induction p rnd currentBlock i blocks rule: fetch_blocks.induct)
  case (1 p rnd currentBlock i blocks)
  from "1.prems" have True: "i < 100" by simp
  show ?case
  proof (cases "i = k")
    case True
    with "1.prems" show ?thesis by (simp add: fetch_blocks_reject)
  next
    case False
    with "1.prems" have ik: "Suc i \<le> k" by simp
    then have upt: "[i..<Suc k] = i # [Suc i..<Suc k]" by (simp add: upt_conv_Cons)
    from "1.prems" ik have nofail: "\<forall>e'. getBlock p (currentBlock - int i) \<noteq> Inl e'" by simp
    from "1.prems"
    have rest: "\<forall>j. Suc i \<le> j \<and> j < k \<longrightarrow> (\<forall>e'. getBlock p (currentBlock - int j) \<noteq> Inl e')"
      by simp
    show ?thesis
    proof (cases "getBlock p (currentBlock - int i)")
      case (Inl e')
      with nofail show ?thesis by simp
    next
      case (Inr ob)
      show ?thesis
      proof (cases ob)
        case None
        with Inr True "1.IH"(1) [OF True Inr None ik "1.prems"(2,3) rest] show ?thesis
          by (simp only: fetch_blocks_null upt fst_conv snd_conv list.map)
      next
        case (Some block)
        with Inr True "1.IH"(2) [OF True Inr Some ik "1.prems"(2,3) rest] show ?thesis
          by (simp only: fetch_blocks_block upt fst_conv snd_conv list.map)
      qed
    qed
  qed
qed

text \<open>Whatever the provider answers, the loop asks for consecutive blocks, at most 100.\<close>

lemma fetch_blocks_calls:
  "\<exists>k. k \<le> 100 \<and>
     snd (fetch_blocks p rnd currentBlock i blocks) =
       map (\<lambda>j. GetBlock (currentBlock - int j)) [i..<k]"
proof (induction p rnd currentBlock i blocks rule: fetch_blocks.induct)
  case (1 p rnd currentBlock i blocks)
  show ?case
  proof (cases "i < 100")
    case False
    then have "snd (fetch_blocks p rnd currentBlock i blocks) =
        map (\<lambda>j. GetBlock (currentBlock - int j)) [i..<100]"
      by (simp add: fetch_blocks_done)
    then show ?thesis by blast
  next
    case True
    show ?thesis
    proof (cases "getBlock p (currentBlock - int i)")
      case (Inl e)
      with True have "snd (fetch_blocks p rnd currentBlock i blocks) =
          map (\<lambda>j. GetBlock (currentBlock - int j)) [i..<Suc i]"
        by (simp add: fetch_blocks_reject)
      moreover have "Suc i \<le> 100" using True by simp
      ultimately show ?thesis by blast
    next
      case (Inr ob)
      show ?thesis
      proof (cases ob)
        case None
        from "1.IH"(1) [OF True Inr None] obtain k where k: "k \<le> 100"
          "snd (fetch_blocks p rnd currentBlock (Suc i) blocks) =
             map (\<lambda>j. GetBlock (currentBlock - int j)) [Suc i..<k]"
          by blast
        have "snd (fetch_blocks p rnd currentBlock i blocks) =
            map (\<lambda>j. GetBlock (currentBlock - int j)) [i..<max k (Suc i)]"
          using True Inr None k(2)
          by (cases "Suc i \<le> k") (simp_all add: fetch_blocks_null upt_conv_Cons)
        moreover have "max k (Suc i) \<le> 100" using k(1) True by simp
        ultimately show ?thesis by blast
      next
        case (Some block)
        from "1.IH"(2) [OF True Inr Some] obtain k where k: "k \<le> 100"
          "snd (fetch_blocks p rnd currentBlock (Suc i)
             (blocks @ [\<lparr>timestamp = block_timestamp block * 1000,
                         price = Number (baseFeePerGas block) / 1000000000,
                         priority = rnd i * 2 + 1 / 2\<rparr>])) =
             map (\<lambda>j. GetBlock (currentBlock - int j)) [Suc i..<k]"
          by blast
        have "snd (fetch_blocks p rnd currentBlock i blocks) =
            map (\<lambda>j. GetBlock (currentBlock - int j)) [i..<max k (Suc i)]"
          using True Inr Some k(2)
          by (cases "Suc i \<le> k") (simp_all add: fetch_blocks_block upt_conv_Cons)
        moreover have "max k (Suc i) \<le> 100" using k(1) True by simp
        ultimately show ?thesis by blast
      qed
    qed
  qed
qed

subsection \<open>\<^verbatim>\<open>initialize\<close>\<close>

lemma initialize_complete:
  "getBlockNumber p = Inr head \<Longrightarrow>
   \<forall>i<100. \<forall>e. getBlock p (head - int i) \<noteq> Inl e \<Longrightarrow>
   initialize p rnd s =
     (Inr (),
      s\<lparr>provider := Some p,
        historicalData := List.map_filter (sample_at p rnd head) [0..<100]\<rparr>,
      GetBlockNumber # map (\<lambda>i. GetBlock (head - int i)) [0..<100])"
  by (simp add: initialize_def updateHistoricalData_def fetch_blocks_complete)

lemma initialize_head_rejected:
  "getBlockNumber p = Inl e \<Longrightarrow>
   initialize p rnd s = (Inr (), s\<lparr>provider := Some p\<rparr>, [GetBlockNumber])"
  by (simp add: initialize_def updateHistoricalData_def)

lemma initialize_block_rejected:
  "getBlockNumber p = Inr head \<Longrightarrow> k < 100 \<Longrightarrow> getBlock p (head - int k) = Inl e \<Longrightarrow>
   \<forall>j<k. \<forall>e'. getBlock p (head - int j) \<noteq> Inl e' \<Longrightarrow>
   initialize p rnd s =
     (Inr (), s\<lparr>provider := Some p\<rparr>,
      GetBlockNumber # map (\<lambda>i. GetBlock (head - int i)) [0..<Suc k])"
  using fetch_blocks_rejected [of 0 k p head e rnd "[]"]
  by (simp add: initialize_def updateHistoricalData_def)

lemma initialize_never_throws: "fst (initialize p rnd s) = Inr ()"
  by (simp add: initialize_def updateHistoricalData_def split: sum.splits prod.splits)

lemma initialize_window_kept:
  assumes "getBlockNumber p = Inr head" "k < 100" "getBlock p (head - int k) = Inl e"
  shows "historicalData (fst (snd (initialize p rnd s))) = historicalData s"
proof (cases "fst (fetch_blocks p rnd head 0 [])")
  case (Inl e')
  with assms(1) show ?thesis
    by (cases "fetch_blocks p rnd head 0 []") (simp add: initialize_def updateHistoricalData_def)
next
  case (Inr bs)
  from fetch_blocks_Inr_no_reject [OF Inr _ assms(2), of e] assms(3) show ?thesis by simp
qed

lemma initialize_window:
  "historicalData (fst (snd (initialize p rnd s))) = historicalData s \<or>
   (\<exists>head. getBlockNumber p = Inr head \<and>
      (\<forall>i<100. \<forall>e. getBlock p (head - int i) \<noteq> Inl e) \<and>
      historicalData (fst (snd (initialize p rnd s))) =
        List.map_filter (sample_at p rnd head) [0..<100])"
proof (cases "getBlockNumber p")
  case (Inl e)
  then show ?thesis by (simp add: initialize_head_rejected)
next
  case (Inr head)
  show ?thesis
  proof (cases "\<forall>i<100. \<forall>e. getBlock p (head - int i) \<noteq> Inl e")
    case True
    with Inr show ?thesis by (simp add: initialize_complete)
  next
    case False
    then obtain k e where "k < 100" "getBlock p (head - int k) = Inl e" by blast
    from initialize_window_kept [OF Inr this] show ?thesis by simp
  qed
qed

lemma length_map_filter_le: "length (List.map_filter f xs) \<le> length xs"
  by (simp add: List.map_filter_def)

lemma reachable_length: "reachable s \<Longrightarrow> length (historicalData s) \<le> 100"
proof (induction rule: reachable.induct)
  case constructed
  show ?case by (simp add: new_GasOptimizer_def)
next
  case (initialized s p rnd)
  from initialize_window [of p rnd s] show ?case
  proof
    assume "historicalData (fst (snd (initialize p rnd s))) = historicalData s"
    with initialized.IH show ?thesis by simp
  next
    assume "\<exists>head. getBlockNumber p = Inr head \<and>
      (\<forall>i<100. \<forall>e. getBlock p (head - int i) \<noteq> Inl e) \<and>
      historicalData (fst (snd (initialize p rnd s))) =
        List.map_filter (sample_at p rnd head) [0..<100]"
    then obtain head where "historicalData (fst (snd (initialize p rnd s))) =
        List.map_filter (sample_at p rnd head) [0..<100]" by blast
    then show ?thesis using length_map_filter_le [of "sample_at p rnd head" "[0..<100]"] by simp
  qed
qed

lemma initialize_attempts:
  "length [c \<leftarrow> snd (snd (initialize p rnd s)). c \<noteq> GetBlockNumber] \<le> 100"
proof (cases "getBlockNumber p")
  case (Inl e)
  then show ?thesis by (simp add: initialize_head_rejected)
next
  case (Inr head)
  obtain k where k: "k \<le> 100"
    "snd (fetch_blocks p rnd head 0 []) = map (\<lambda>j. GetBlock (head - int j)) [0..<k]"
    using fetch_blocks_calls [of p rnd head 0 "[]"] by blast
  have "snd (snd (initialize p rnd s)) = GetBlockNumber # snd (fetch_blocks p rnd head 0 [])"
    using Inr by (simp add: initialize_def updateHistoricalData_def split: sum.splits prod.splits)
  with k show ?thesis by (simp add: filter_map comp_def)
qed

lemma initialize_calls_distinct: "distinct (snd (snd (initialize p rnd s)))"
proof (cases "getBlockNumber p")
  case (Inl e)
  then show ?thesis by (simp add: initialize_head_rejected)
next
  case (Inr head)
  obtain k where k: "k \<le> 100"
    "snd (fetch_blocks p rnd head 0 []) = map (\<lambda>j. GetBlock (head - int j)) [0..<k]"
    using fetch_blocks_calls [of p rnd head 0 "[]"] by blast
  have "snd (snd (initialize p rnd s)) = GetBlockNumber # snd (fetch_blocks p rnd head 0 [])"
    using Inr by (simp add: initialize_def updateHistoricalData_def split: sum.splits prod.splits)
  moreover have "inj_on (\<lambda>j. GetBlock (head - int j)) (set [0..<k])"
    by (rule inj_onI) simp
  ultimately show ?thesis using k by (auto simp: distinct_map)
qed

subsection \<open>Reading the window\<close>

lemma Math_min_foldl:
  "foldl (\<lambda>m x. if num_less (Fin x) m then Fin x else m) (Fin a) xs = Fin (fold min xs a)"
  by (induction xs arbitrary: a) (simp_all add: min_def)

lemma Math_min_nonempty: "xs \<noteq> [] \<Longrightarrow> Math_min xs = Fin (Min (set xs))"
proof (cases xs)
  case Nil
  assume "xs \<noteq> []"
  with Nil show ?thesis by simp
next
  case (Cons x ys)
  have "Math_min (x # ys) = Fin (fold min ys x)"
    by (simp add: Math_min_def Math_min_foldl)
  also have "fold min ys x = Min (set (x # ys))"
    by (simp only: Min.set_eq_fold)
  finally show ?thesis using Cons by simp
qed

lemma foldl_sum_price: "foldl (\<lambda>sum d. sum + price d) a ds = a + sum_list (map price ds)"
  by (induction ds arbitrary: a) simp_all

text \<open>What a returned recommendation is made of.\<close>

lemma getGasRecommendation_InrD:
  assumes "getGasRecommendation h s = (Inr r, cs)"
  obtains p fd hs where "provider s = Some p" "historicalData s \<noteq> []" "getFeeData p = Inr fd"
    "forEach_hourly h (replicate 24 \<lparr>hsum = 0, hcount = 0\<rparr>) (historicalData s) = Inr hs"
    "cs = [GetFeeData]"
    "bestTime r = digits (fst (reduce_best (0, Infinity) 0 hs)) @ '':00 - ''
         @ digits ((fst (reduce_best (0, Infinity) 0 hs) + 1) mod 24) @ '':00 UTC''"
    "estimatedSavings r =
       toFixed1 h
         (num_mul
            (num_div
               (num_sub (Fin (Number (gasPrice fd) / 1000000000))
                  (Fin (Min (price ` set (historicalData s)))))
               (Fin (Number (gasPrice fd) / 1000000000)))
            (Fin 100)) @ ''%''"
    "currentGwei r = Math_round (Fin (Number (gasPrice fd) / 1000000000))"
    "historicalLow r = Math_round (Fin (Min (price ` set (historicalData s))))"
    "batchingRecommendation r =
       (if 6 / 5 * (sum_list (map price (historicalData s)) / of_nat (length (historicalData s)))
           < Number (gasPrice fd) / 1000000000
        then ''Batching transactions recommended for optimal gas savings''
        else ''Individual transactions acceptable at current gas prices'')"
  using assms
  by (auto simp: getGasRecommendation_def Let_def Math_min_nonempty foldl_sum_price mult.commute
      split: option.splits if_splits sum.splits)

lemma getGasRecommendation_fee_rejected:
  "provider s = Some p \<Longrightarrow> historicalData s \<noteq> [] \<Longrightarrow> getFeeData p = Inl e \<Longrightarrow>
   getGasRecommendation h s = (Inl e, [GetFeeData])"
  by (simp add: getGasRecommendation_def)

lemma getGasRecommendation_calls:
  "snd (getGasRecommendation h s) = [] \<or> snd (getGasRecommendation h s) = [GetFeeData]"
  by (simp add: getGasRecommendation_def Let_def split: option.splits sum.splits)




lemma toFixed1_hundred: "toFixed1 h (Fin 100) = ''100.0''"
proof -
  have "digits 1000 = ''1000''" by code_simp
  moreover have "nat \<lfloor>(2001::rat) / 2\<rfloor> = 1000" by code_simp
  ultimately show ?thesis by (simp add: toFixed1_def Let_def)
qed



lemma Min_price_le: "d \<in> set ds \<Longrightarrow> Min (price ` set ds) \<le> price d"
  by simp

lemma Min_price_in: "ds \<noteq> [] \<Longrightarrow> \<exists>d \<in> set ds. price d = Min (price ` set ds)"
proof -
  assume "ds \<noteq> []"
  then have "Min (price ` set ds) \<in> price ` set ds" by (intro Min_in) simp_all
  then show ?thesis by auto
qed

lemma initialize_provider: "provider (fst (snd (initialize p rnd s))) = Some p"
  by (simp add: initialize_def updateHistoricalData_def split: sum.splits prod.splits)

subsection \<open>The hour of the least mean\<close>

lemma getHours_less_24: "getHours h t = Some k \<Longrightarrow> k < 24"
  by (auto simp: getHours_def split: if_splits)

lemma hour_prices_Cons:
  "hour_prices h (d # ds) k =
     (if getHours h (timestamp d) = Some k then price d # hour_prices h ds k
      else hour_prices h ds k)"
  by (simp add: hour_prices_def)

lemma forEach_hourly_buckets:
  "forEach_hourly h hs ds = Inr hs' \<Longrightarrow> length hs = 24 \<Longrightarrow>
   length hs' = 24 \<and>
   (\<forall>k<24. hsum (hs' ! k) = hsum (hs ! k) + sum_list (hour_prices h ds k) \<and>
            hcount (hs' ! k) = hcount (hs ! k) + length (hour_prices h ds k))"
proof (induction ds arbitrary: hs)
  case Nil
  then show ?case by (simp add: hour_prices_def)
next
  case (Cons d ds)
  from Cons.prems(1) obtain hour where hour: "getHours h (timestamp d) = Some hour"
    by (cases "getHours h (timestamp d)") simp_all
  then have lt: "hour < 24" by (rule getHours_less_24)
  let ?hs1 = "hs[hour := \<lparr>hsum = hsum (hs ! hour) + price d, hcount = hcount (hs ! hour) + 1\<rparr>]"
  from Cons.prems(1) hour have run: "forEach_hourly h ?hs1 ds = Inr hs'" by simp
  from Cons.prems(2) have len: "length ?hs1 = 24" by simp
  from Cons.IH [OF run len]
  have IH: "length hs' = 24"
    "\<And>k. k < 24 \<Longrightarrow> hsum (hs' ! k) = hsum (?hs1 ! k) + sum_list (hour_prices h ds k)"
    "\<And>k. k < 24 \<Longrightarrow> hcount (hs' ! k) = hcount (?hs1 ! k) + length (hour_prices h ds k)"
    by blast+
  have "hsum (hs' ! k) = hsum (hs ! k) + sum_list (hour_prices h (d # ds) k) \<and>
        hcount (hs' ! k) = hcount (hs ! k) + length (hour_prices h (d # ds) k)"
    if k: "k < 24" for k
  proof (cases "k = hour")
    case True
    with IH(2,3) [OF k] Cons.prems(2) lt hour show ?thesis
      by (simp add: hour_prices_Cons)
  next
    case False
    with IH(2,3) [OF k] hour show ?thesis
      by (simp add: hour_prices_Cons)
  qed
  with IH(1) show ?case by blast
qed

lemma reduce_best_Cons:
  "reduce_best best hour (current # rest) =
     reduce_best (if num_less (bucket_avg current) (snd best) then (hour, bucket_avg current)
                  else best) (Suc hour) rest"
  by (simp add: bucket_avg_def Let_def)

lemma bucket_avg_cases: "bucket_avg b = Infinity \<or> (\<exists>q. bucket_avg b = Fin q)"
  by (simp add: bucket_avg_def)

lemma num_less_below:
  "\<not> num_less y (Fin a) \<Longrightarrow> q < a \<Longrightarrow> y = Infinity \<or> (\<exists>x. y = Fin x) \<Longrightarrow>
   num_less (Fin q) y \<and> \<not> num_less y (Fin q)"
  by auto

lemma best_so_far_step:
  assumes "best_so_far bs best i"
  shows "best_so_far bs
           (if num_less (bucket_avg (bs ! i)) (snd best) then (i, bucket_avg (bs ! i)) else best)
           (Suc i)"
proof -
  obtain b0 a0 where best: "best = (b0, a0)" by (cases best)
  from assms [unfolded best_so_far_def best fst_conv snd_conv]
  show ?thesis
  proof
    assume a: "a0 = Infinity \<and> b0 = 0 \<and> (\<forall>k<i. bucket_avg (bs ! k) = Infinity)"
    from bucket_avg_cases [of "bs ! i"] show ?thesis
    proof
      assume "bucket_avg (bs ! i) = Infinity"
      with a show ?thesis by (simp add: best_so_far_def best less_Suc_eq)
    next
      assume "\<exists>q. bucket_avg (bs ! i) = Fin q"
      then obtain q where "bucket_avg (bs ! i) = Fin q" ..
      with a show ?thesis by (simp add: best_so_far_def best less_Suc_eq)
    qed
  next
    assume b: "b0 < i \<and> a0 = bucket_avg (bs ! b0) \<and> a0 \<noteq> Infinity \<and>
        (\<forall>k<i. \<not> num_less (bucket_avg (bs ! k)) a0) \<and>
        (\<forall>k<b0. num_less a0 (bucket_avg (bs ! k)))"
    then obtain a where a: "a0 = Fin a"
      using bucket_avg_cases [of "bs ! b0"] by auto
    note b' = b [unfolded a]
    from b' have b1: "b0 < i" by (elim conjE)
    from b' have "Fin a = bucket_avg (bs ! b0)" by (elim conjE)
    then have b2: "bucket_avg (bs ! b0) = Fin a" by (rule sym)
    from b' have "\<forall>k<i. \<not> num_less (bucket_avg (bs ! k)) (Fin a)" by (elim conjE)
    then have b3: "\<not> num_less (bucket_avg (bs ! k)) (Fin a)" if "k < i" for k
      using that by simp
    from b' have "\<forall>k<b0. num_less (Fin a) (bucket_avg (bs ! k))" by (elim conjE)
    then have b4: "num_less (Fin a) (bucket_avg (bs ! k))" if "k < b0" for k
      using that by simp
    from bucket_avg_cases [of "bs ! i"] show ?thesis
    proof
      assume "bucket_avg (bs ! i) = Infinity"
      with b1 b2 b3 b4 show ?thesis by (simp add: best_so_far_def best a less_Suc_eq)
    next
      assume "\<exists>q. bucket_avg (bs ! i) = Fin q"
      then obtain q where q: "bucket_avg (bs ! i) = Fin q" ..
      show ?thesis
      proof (cases "q < a")
        case False
        with q b1 b2 b3 b4 show ?thesis by (simp add: best_so_far_def best a less_Suc_eq)
      next
        case True
        have "num_less (Fin q) (bucket_avg (bs ! k)) \<and> \<not> num_less (bucket_avg (bs ! k)) (Fin q)"
          if "k < i" for k
          using b3 [OF that] True bucket_avg_cases [of "bs ! k"] by (rule num_less_below)
        with q True show ?thesis by (simp add: best_so_far_def best a less_Suc_eq)
      qed
    qed
  qed
qed

lemma reduce_best_invariant:
  "rest = drop i bs \<Longrightarrow> i \<le> length bs \<Longrightarrow> best_so_far bs best i \<Longrightarrow>
   best_so_far bs (reduce_best best i rest) (length bs)"
proof (induction rest arbitrary: best i)
  case Nil
  then have "i = length bs" by simp
  with Nil show ?case by simp
next
  case (Cons current rest)
  from Cons.prems(1,2) have i: "i < length bs"
    by (metis drop_all leI list.distinct(1))
  with Cons.prems(1) have cur: "current = bs ! i" and rest: "rest = drop (Suc i) bs"
    by (simp_all add: Cons_nth_drop_Suc [symmetric])
  from i have "Suc i \<le> length bs" by simp
  from Cons.IH [OF rest this best_so_far_step [OF Cons.prems(3)]] cur
  show ?case by (simp only: reduce_best_Cons)
qed


lemma best_so_far_start: "best_so_far bs (0, Infinity) 0"
  by (simp add: best_so_far_def)

text \<open>
  The hour that \<^verbatim>\<open>getGasRecommendation\<close> names is an hour of the host's local time with
  a sample in the window; no hour with a sample has a smaller mean price, and every
  earlier hour with a sample has a greater one.
\<close>

lemma bestTime_least_mean:
  assumes "getGasRecommendation h s = (Inr r, cs)"
  shows "\<exists>H<24.
           bestTime r = digits H @ '':00 - '' @ digits ((H + 1) mod 24) @ '':00 UTC'' \<and>
           hour_prices h (historicalData s) H \<noteq> [] \<and>
           (\<forall>k<24. hour_prices h (historicalData s) k \<noteq> [] \<longrightarrow>
              hour_mean h (historicalData s) H \<le> hour_mean h (historicalData s) k \<and>
              (hour_mean h (historicalData s) k = hour_mean h (historicalData s) H \<longrightarrow> H \<le> k))"
proof -
  let ?w = "historicalData s"
  from assms obtain hs where ne: "?w \<noteq> []"
    and hs: "forEach_hourly h (replicate 24 \<lparr>hsum = 0, hcount = 0\<rparr>) ?w = Inr hs"
    and bt: "bestTime r = digits (fst (reduce_best (0, Infinity) 0 hs)) @ '':00 - ''
         @ digits ((fst (reduce_best (0, Infinity) 0 hs) + 1) mod 24) @ '':00 UTC''"
    by (elim getGasRecommendation_InrD) simp
  from forEach_hourly_buckets [OF hs] have len: "length hs = 24"
    and sums: "\<And>k. k < 24 \<Longrightarrow> hsum (hs ! k) = sum_list (hour_prices h ?w k)"
    and counts: "\<And>k. k < 24 \<Longrightarrow> hcount (hs ! k) = length (hour_prices h ?w k)"
    by simp_all
  have avg: "bucket_avg (hs ! k) =
      (if hour_prices h ?w k \<noteq> [] then Fin (hour_mean h ?w k) else Infinity)"
    if "k < 24" for k
    by (simp add: bucket_avg_def hour_mean_def sums [OF that] counts [OF that])
  \<comment> \<open>some hour has a sample\<close>
  from ne obtain d ds where w: "?w = d # ds" by (cases ?w) simp_all
  from hs w obtain k0 where k0: "getHours h (timestamp d) = Some k0"
    by (cases "getHours h (timestamp d)") simp_all
  then have k0_lt: "k0 < 24" by (rule getHours_less_24)
  from k0 w have k0_ne: "hour_prices h ?w k0 \<noteq> []" by (simp add: hour_prices_Cons)
  \<comment> \<open>the invariant of the reduce at its end\<close>
  let ?best = "reduce_best (0, Infinity) 0 hs"
  have "best_so_far hs ?best (length hs)"
    by (rule reduce_best_invariant) (simp_all add: best_so_far_start)
  with len have "best_so_far hs ?best 24" by simp
  moreover from k0_lt k0_ne have "bucket_avg (hs ! k0) \<noteq> Infinity" by (simp add: avg)
  ultimately have H: "fst ?best < 24" and at: "snd ?best = bucket_avg (hs ! fst ?best)"
    and fin: "snd ?best \<noteq> Infinity"
    and least: "\<And>k. k < 24 \<Longrightarrow> \<not> num_less (bucket_avg (hs ! k)) (snd ?best)"
    and first: "\<And>k. k < fst ?best \<Longrightarrow> num_less (snd ?best) (bucket_avg (hs ! k))"
    using k0_lt unfolding best_so_far_def by blast+
  from at fin H have H_ne: "hour_prices h ?w (fst ?best) \<noteq> []"
    by (auto simp: avg split: if_splits)
  with at H have val: "snd ?best = Fin (hour_mean h ?w (fst ?best))" by (simp add: avg)
  have "hour_mean h ?w (fst ?best) \<le> hour_mean h ?w k \<and>
        (hour_mean h ?w k = hour_mean h ?w (fst ?best) \<longrightarrow> fst ?best \<le> k)"
    if k: "k < 24" and k_ne: "hour_prices h ?w k \<noteq> []" for k
  proof
    from least [OF k] k_ne show "hour_mean h ?w (fst ?best) \<le> hour_mean h ?w k"
      by (simp add: val avg [OF k])
    show "hour_mean h ?w k = hour_mean h ?w (fst ?best) \<longrightarrow> fst ?best \<le> k"
    proof (rule impI, rule ccontr)
      assume eq: "hour_mean h ?w k = hour_mean h ?w (fst ?best)" and "\<not> fst ?best \<le> k"
      then have "k < fst ?best" by simp
      from first [OF this] k_ne eq show False by (simp add: val avg [OF k])
    qed
  qed
  with H bt H_ne show ?thesis by blast
qed

section \<open>The claims\<close>

text \<open>
  C1. In every state of the sampler, \<^verbatim>\<open>getGasRecommendation\<close> called with an empty
  stored window, or with no provider set, fails with the error
  \<^verbatim>\<open>Gas optimizer not initialized\<close>: it returns no recommendation, filled or partly
  filled, and it makes no call to a provider.
\<close>

theorem getGasRecommendation_uninitialized:
  assumes "provider s = None \<or> historicalData s = []"
  shows "getGasRecommendation h s = (Inl (Error ''Gas optimizer not initialized''), []) \<and>
         (\<forall>r. fst (getGasRecommendation h s) \<noteq> Inr r)"
  using assms by (auto simp: getGasRecommendation_def split: option.splits)

theorem getGasRecommendation_uninitialized_witness:
  "provider new_GasOptimizer = None \<and>
   getGasRecommendation utc_host new_GasOptimizer =
     (Inl (Error ''Gas optimizer not initialized''), [])"
proof -
  have none: "provider new_GasOptimizer = None" by (simp add: new_GasOptimizer_def)
  then have "provider new_GasOptimizer = None \<or> historicalData new_GasOptimizer = []" ..
  from getGasRecommendation_uninitialized [OF this, of utc_host] none show ?thesis by simp
qed

text \<open>
  C9, as the claim states it, fails: on the constructed instance, before any
  \<^verbatim>\<open>initialize\<close>, \<^verbatim>\<open>getHistoricalData\<close> returns the empty array and no error.
\<close>

theorem getHistoricalData_before_initialize:
  "getHistoricalData new_GasOptimizer = Inr []"
  by (simp add: getHistoricalData_def new_GasOptimizer_def)

text \<open>
  C9, amended. \<^verbatim>\<open>getHistoricalData\<close> never fails: in every state it returns the stored
  window verbatim, which is the empty array before any \<^verbatim>\<open>initialize\<close>, and after an
  \<^verbatim>\<open>initialize\<close> none of whose reads rejected it is the list of the samples of the
  retrieved blocks.
\<close>

theorem getHistoricalData_verbatim:
  "getHistoricalData s = Inr (historicalData s) \<and>
   (getBlockNumber p = Inr head \<and> (\<forall>i<100. \<forall>e. getBlock p (head - int i) \<noteq> Inl e) \<longrightarrow>
      getHistoricalData (fst (snd (initialize p rnd s))) =
        Inr (List.map_filter (sample_at p rnd head) [0..<100]))"
  by (simp add: getHistoricalData_def initialize_complete)

theorem getHistoricalData_verbatim_witness:
  "getHistoricalData example_state =
     Inr [\<lparr>timestamp = 0, price = 10, priority = 1 / 2\<rparr>,
          \<lparr>timestamp = 60000, price = 12, priority = 1 / 2\<rparr>,
          \<lparr>timestamp = 18000000, price = 6, priority = 1 / 2\<rparr>]"
proof -
  have "historicalData example_state =
     [\<lparr>timestamp = 0, price = 10, priority = 1 / 2\<rparr>,
      \<lparr>timestamp = 60000, price = 12, priority = 1 / 2\<rparr>,
      \<lparr>timestamp = 18000000, price = 6, priority = 1 / 2\<rparr>]"
    by code_simp
  with getHistoricalData_verbatim [of example_state] show ?thesis by (simp only:)
qed

text \<open>
  C3, as the claim states it, fails: with a provider whose head read is rejected, and with
  one whose read of block 999 is rejected, \<^verbatim>\<open>initialize\<close> returns normally.
\<close>

theorem initialize_swallows_failure:
  "getBlockNumber offline_provider = Inl (Error ''network error'') \<and>
   fst (initialize offline_provider no_random new_GasOptimizer) = Inr () \<and>
   getBlock flaky_provider 999 = Inl (Error ''timeout'') \<and>
   snd (snd (initialize flaky_provider no_random new_GasOptimizer)) =
     [GetBlockNumber, GetBlock 1000, GetBlock 999] \<and>
   fst (initialize flaky_provider no_random new_GasOptimizer) = Inr ()"
  by code_simp

text \<open>
  C3, amended. A failure of the live-price read in \<^verbatim>\<open>getGasRecommendation\<close> is
  surfaced to the caller as the provider's error. A failure of the head-block-number read
  or of a block read during \<^verbatim>\<open>initialize\<close> is caught inside
  \<^verbatim>\<open>updateHistoricalData\<close>: \<^verbatim>\<open>initialize\<close> returns normally and the stored window is
  left as it was. No provider call is made twice: there is no retry.
\<close>

theorem read_failures:
  "fst (initialize p rnd s) = Inr () \<and>
   (getBlockNumber p = Inl e \<longrightarrow>
      historicalData (fst (snd (initialize p rnd s))) = historicalData s) \<and>
   (getBlockNumber p = Inr head \<and> k < 100 \<and> getBlock p (head - int k) = Inl e \<longrightarrow>
      historicalData (fst (snd (initialize p rnd s))) = historicalData s) \<and>
   (provider s = Some q \<and> historicalData s \<noteq> [] \<and> getFeeData q = Inl e \<longrightarrow>
      getGasRecommendation h s = (Inl e, [GetFeeData])) \<and>
   distinct (snd (snd (initialize p rnd s))) \<and>
   distinct (snd (getGasRecommendation h s))"
proof -
  have "distinct (snd (getGasRecommendation h s))"
    using getGasRecommendation_calls [of h s] by auto
  moreover have "getBlockNumber p = Inr head \<and> k < 100 \<and> getBlock p (head - int k) = Inl e \<longrightarrow>
      historicalData (fst (snd (initialize p rnd s))) = historicalData s"
    using initialize_window_kept [of p head k e rnd s] by blast
  ultimately show ?thesis
    by (simp add: initialize_never_throws initialize_head_rejected
        getGasRecommendation_fee_rejected initialize_calls_distinct)
qed

theorem read_failures_witness:
  "fst (initialize offline_provider no_random example_state) = Inr () \<and>
   historicalData (fst (snd (initialize offline_provider no_random example_state))) =
     historicalData example_state \<and>
   historicalData (fst (snd (initialize flaky_provider no_random example_state))) =
     historicalData example_state \<and>
   getGasRecommendation utc_host no_fee_state =
     (Inl (Error ''fee data unavailable''), [GetFeeData])"
proof -
  have a: "getBlockNumber offline_provider = Inl (Error ''network error'')"
    by (simp add: offline_provider_def)
  have b: "getBlockNumber flaky_provider = Inr 1000 \<and> (1::nat) < 100 \<and>
      getBlock flaky_provider (1000 - int 1) = Inl (Error ''timeout'')"
    by (simp add: flaky_provider_def flaky_getBlock_def)
  have "length (historicalData example_state) = 3" by code_simp
  then have "historicalData example_state \<noteq> []" by auto
  then have c: "provider no_fee_state =
      Some (example_provider\<lparr>getFeeData := Inl (Error ''fee data unavailable'')\<rparr>) \<and>
    historicalData no_fee_state \<noteq> [] \<and>
    getFeeData (example_provider\<lparr>getFeeData := Inl (Error ''fee data unavailable'')\<rparr>) =
      Inl (Error ''fee data unavailable'')"
    by (simp add: no_fee_state_def)
  from a
    read_failures [of offline_provider no_random example_state "Error ''network error''"]
  have 1: "fst (initialize offline_provider no_random example_state) = Inr () \<and>
    historicalData (fst (snd (initialize offline_provider no_random example_state))) =
      historicalData example_state"
    by blast
  from b
    read_failures [of flaky_provider no_random example_state "Error ''timeout''" 1000 1]
  have 2: "historicalData (fst (snd (initialize flaky_provider no_random example_state))) =
      historicalData example_state"
    by blast
  from c
    read_failures [of _ _ no_fee_state "Error ''fee data unavailable''" _ _
      "example_provider\<lparr>getFeeData := Inl (Error ''fee data unavailable'')\<rparr>" utc_host]
  have 3: "getGasRecommendation utc_host no_fee_state =
     (Inl (Error ''fee data unavailable''), [GetFeeData])"
    by blast
  from 1 2 3 show ?thesis by blast
qed

text \<open>
  C7. In every state that the constructed instance reaches through calls of
  \<^verbatim>\<open>initialize\<close>, and so after every \<^verbatim>\<open>initialize\<close>, the stored window has at most
  100 samples. A call of \<^verbatim>\<open>initialize\<close> makes at most 100 block reads, whatever the
  provider answers. The window it leaves is either the one it found or exactly the list
  of the samples of the retrieved blocks, in the order of the reads: a block read that
  resolved to \<^verbatim>\<open>null\<close> contributes no entry, so the window has as many samples as reads
  that resolved to a block.
\<close>

theorem window_at_most_cap:
  assumes "reachable s"
  shows "length (historicalData s) \<le> 100 \<and>
         length (historicalData (fst (snd (initialize p rnd s)))) \<le> 100 \<and>
         length [c \<leftarrow> snd (snd (initialize p rnd s)). c \<noteq> GetBlockNumber] \<le> 100 \<and>
         (historicalData (fst (snd (initialize p rnd s))) = historicalData s \<or>
          (\<exists>head. getBlockNumber p = Inr head \<and>
             historicalData (fst (snd (initialize p rnd s))) =
               List.map_filter (sample_at p rnd head) [0..<100] \<and>
             length (historicalData (fst (snd (initialize p rnd s)))) =
               length [i \<leftarrow> [0..<100]. \<exists>block. getBlock p (head - int i) = Inr (Some block)]))"
proof -
  have 1: "length (historicalData s) \<le> 100"
    using assms by (rule reachable_length)
  have "reachable (fst (snd (initialize p rnd s)))"
    using assms by (rule reachable.initialized)
  then have 2: "length (historicalData (fst (snd (initialize p rnd s)))) \<le> 100"
    by (rule reachable_length)
  have f: "(\<lambda>i. sample_at p rnd head i \<noteq> None) =
      (\<lambda>i. \<exists>block. getBlock p (head - int i) = Inr (Some block))" for head
    by (auto simp: sample_at_def fun_eq_iff split: sum.splits option.splits)
  have 3: "length (List.map_filter (sample_at p rnd head) [0..<100]) =
      length [i \<leftarrow> [0..<100]. \<exists>block. getBlock p (head - int i) = Inr (Some block)]" for head
    by (simp only: List.map_filter_def length_map f)
  from initialize_window [of p rnd s] 3
  have 4: "historicalData (fst (snd (initialize p rnd s))) = historicalData s \<or>
          (\<exists>head. getBlockNumber p = Inr head \<and>
             historicalData (fst (snd (initialize p rnd s))) =
               List.map_filter (sample_at p rnd head) [0..<100] \<and>
             length (historicalData (fst (snd (initialize p rnd s)))) =
               length [i \<leftarrow> [0..<100]. \<exists>block. getBlock p (head - int i) = Inr (Some block)])"
    by metis
  from 1 2 4 initialize_attempts [of p rnd s] show ?thesis by blast
qed

theorem window_at_most_cap_witness:
  "length (historicalData example_state) \<le> 100 \<and>
   length (historicalData example_state) = 3 \<and>
   length (historicalData (fst (snd (initialize flaky_provider no_random example_state)))) \<le> 100 \<and>
   length [c \<leftarrow> snd (snd (initialize flaky_provider no_random example_state)).
             c \<noteq> GetBlockNumber] \<le> 100"
proof -
  have "reachable example_state"
    unfolding example_state_def by (rule reachable.initialized) (rule reachable.constructed)
  from window_at_most_cap [OF this, of flaky_provider no_random]
  have "length (historicalData example_state) \<le> 100 \<and>
   length (historicalData (fst (snd (initialize flaky_provider no_random example_state)))) \<le> 100 \<and>
   length [c \<leftarrow> snd (snd (initialize flaky_provider no_random example_state)).
             c \<noteq> GetBlockNumber] \<le> 100"
    by blast
  moreover have "length (historicalData example_state) = 3" by code_simp
  ultimately show ?thesis by blast
qed

text \<open>
  C8, as the claim states it, fails: the provider answers the read of the head block 1000
  and rejects the read of block 999; \<^verbatim>\<open>initialize\<close> then makes two block reads, not
  100, and records no sample for the retrieved block 1000.
\<close>

theorem rejected_read_ends_fetching:
  "getBlockNumber flaky_provider = Inr 1000 \<and>
   getBlock flaky_provider 1000 =
     Inr (Some \<lparr>block_timestamp = 0, baseFeePerGas = Some 10000000000\<rparr>) \<and>
   getBlock flaky_provider 999 = Inl (Error ''timeout'') \<and>
   snd (snd (initialize flaky_provider no_random new_GasOptimizer)) =
     [GetBlockNumber, GetBlock 1000, GetBlock 999] \<and>
   historicalData (fst (snd (initialize flaky_provider no_random new_GasOptimizer))) = []"
  by code_simp

text \<open>
  C8, amended. When the head read resolves and none of the block reads rejects (a block
  read may resolve to \<^verbatim>\<open>null\<close>), \<^verbatim>\<open>initialize\<close> reads the head number and then makes
  exactly 100 block reads, one after the other, for the numbers head, head - 1, ...,
  head - 99, and the window it stores has, for each read that resolved to a block, a
  sample with \<open>timestamp = block.timestamp * 1000\<close> and
  \<open>price = Number(block.baseFeePerGas) / 1e9\<close>, which is the base fee divided by \<open>1e9\<close>
  when there is one. When a block read rejects, the first such read is the last one made
  and the stored window is not replaced.
\<close>

theorem initialize_fetch_sequence:
  assumes "getBlockNumber p = Inr head"
  shows "((\<forall>i<100. \<forall>e. getBlock p (head - int i) \<noteq> Inl e) \<longrightarrow>
            snd (snd (initialize p rnd s)) =
              GetBlockNumber # map (\<lambda>i. GetBlock (head - int i)) [0..<100] \<and>
            historicalData (fst (snd (initialize p rnd s))) =
              List.map_filter (sample_at p rnd head) [0..<100] \<and>
            (\<forall>i<100. \<forall>block. getBlock p (head - int i) = Inr (Some block) \<longrightarrow>
               (\<exists>d \<in> set (historicalData (fst (snd (initialize p rnd s)))).
                  timestamp d = block_timestamp block * 1000 \<and>
                  price d = Number (baseFeePerGas block) / 1000000000 \<and>
                  (\<forall>fee. baseFeePerGas block = Some fee \<longrightarrow>
                     price d = of_int fee / 1000000000)))) \<and>
         (\<forall>k<100. \<forall>e. getBlock p (head - int k) = Inl e \<and>
              (\<forall>j<k. \<forall>e'. getBlock p (head - int j) \<noteq> Inl e') \<longrightarrow>
            snd (snd (initialize p rnd s)) =
              GetBlockNumber # map (\<lambda>i. GetBlock (head - int i)) [0..<Suc k] \<and>
            historicalData (fst (snd (initialize p rnd s))) = historicalData s)"
proof (intro conjI impI allI)
  assume ok: "\<forall>i<100. \<forall>e. getBlock p (head - int i) \<noteq> Inl e"
  show "snd (snd (initialize p rnd s)) = GetBlockNumber # map (\<lambda>i. GetBlock (head - int i)) [0..<100]"
    by (simp add: initialize_complete [OF assms ok])
  show w: "historicalData (fst (snd (initialize p rnd s))) =
      List.map_filter (sample_at p rnd head) [0..<100]"
    by (simp add: initialize_complete [OF assms ok])
  fix i block
  assume i: "i < 100" and b: "getBlock p (head - int i) = Inr (Some block)"
  let ?d = "\<lparr>timestamp = block_timestamp block * 1000,
             price = Number (baseFeePerGas block) / 1000000000,
             priority = rnd i * 2 + 1 / 2\<rparr>"
  from b have "sample_at p rnd head i = Some ?d" by (simp add: sample_at_def)
  moreover from i have "i \<in> set [0..<100]" by simp
  ultimately have "?d \<in> set (List.map_filter (sample_at p rnd head) [0..<100])"
    unfolding List.map_filter_def by force
  with w have "?d \<in> set (historicalData (fst (snd (initialize p rnd s))))" by simp
  moreover have "timestamp ?d = block_timestamp block * 1000 \<and>
      price ?d = Number (baseFeePerGas block) / 1000000000 \<and>
      (\<forall>fee. baseFeePerGas block = Some fee \<longrightarrow> price ?d = of_int fee / 1000000000)"
    by simp
  ultimately show "\<exists>d \<in> set (historicalData (fst (snd (initialize p rnd s)))).
      timestamp d = block_timestamp block * 1000 \<and>
      price d = Number (baseFeePerGas block) / 1000000000 \<and>
      (\<forall>fee. baseFeePerGas block = Some fee \<longrightarrow> price d = of_int fee / 1000000000)"
    by blast
next
  fix k e
  assume k: "k < 100"
    and r: "getBlock p (head - int k) = Inl e \<and> (\<forall>j<k. \<forall>e'. getBlock p (head - int j) \<noteq> Inl e')"
  then have first: "\<forall>j<k. \<forall>e'. getBlock p (head - int j) \<noteq> Inl e'"
    and rej: "getBlock p (head - int k) = Inl e" by blast+
  show "snd (snd (initialize p rnd s)) = GetBlockNumber # map (\<lambda>i. GetBlock (head - int i)) [0..<Suc k]"
    by (simp only: initialize_block_rejected [OF assms k rej first] snd_conv)
  show "historicalData (fst (snd (initialize p rnd s))) = historicalData s"
    by (rule initialize_window_kept [OF assms k rej])
qed

theorem initialize_fetch_sequence_witness:
  "length (snd (snd (initialize example_provider no_random new_GasOptimizer))) = 101 \<and>
   take 4 (snd (snd (initialize example_provider no_random new_GasOptimizer))) =
     [GetBlockNumber, GetBlock 1000, GetBlock 999, GetBlock 998] \<and>
   historicalData (fst (snd (initialize example_provider no_random new_GasOptimizer))) =
     [\<lparr>timestamp = 0, price = 10, priority = 1 / 2\<rparr>,
      \<lparr>timestamp = 60000, price = 12, priority = 1 / 2\<rparr>,
      \<lparr>timestamp = 18000000, price = 6, priority = 1 / 2\<rparr>]"
proof -
  have h: "getBlockNumber example_provider = Inr 1000"
    by (simp add: example_provider_def)
  have ok: "\<forall>i<100. \<forall>e. getBlock example_provider (1000 - int i) \<noteq> Inl e"
    by (simp add: example_provider_def example_getBlock_def)
  from initialize_fetch_sequence [OF h, of no_random new_GasOptimizer] ok
  have calls: "snd (snd (initialize example_provider no_random new_GasOptimizer)) =
      GetBlockNumber # map (\<lambda>i. GetBlock (1000 - int i)) [0..<100]"
    and window: "historicalData (fst (snd (initialize example_provider no_random new_GasOptimizer))) =
      List.map_filter (sample_at example_provider no_random 1000) [0..<100]"
    by blast+
  have 1: "length (GetBlockNumber # map (\<lambda>i. GetBlock (1000 - int i)) [0..<100]) = 101"
    by simp
  have 2: "take 4 (GetBlockNumber # map (\<lambda>i. GetBlock (1000 - int i)) [0..<100]) =
      [GetBlockNumber, GetBlock 1000, GetBlock 999, GetBlock 998]"
    by code_simp
  have 3: "List.map_filter (sample_at example_provider no_random 1000) [0..<100] =
     [\<lparr>timestamp = 0, price = 10, priority = 1 / 2\<rparr>,
      \<lparr>timestamp = 60000, price = 12, priority = 1 / 2\<rparr>,
      \<lparr>timestamp = 18000000, price = 6, priority = 1 / 2\<rparr>]"
    by code_simp
  from calls window 1 2 3 show ?thesis by (simp only:)
qed




text \<open>
  C6, as the claim states it, fails: the window holds one sample, of price 0.6 gwei, and
  the field \<open>historicalLow\<close> of the recommendation is 1, which is above that price.
\<close>

theorem historicalLow_above_sample:
  "map price (historicalData cheap_state) = [3 / 5] \<and>
   map_sum id historicalLow (fst (getGasRecommendation utc_host cheap_state)) = Inr (Fin 1) \<and>
   \<not> (1 :: rat) \<le> 3 / 5"
  by code_simp

text \<open>
  C6, amended. For every non-empty window, the field \<open>historicalLow\<close> of the returned
  recommendation is \<^verbatim>\<open>Math.round\<close> of the minimum observed price in the window: the
  nearest integer, a half going up. The minimum itself is the price of a sample and is
  less than or equal to every sample's price; the field is less than or equal to every
  sample's price plus one half.
\<close>

theorem historicalLow_rounded_minimum:
  assumes "getGasRecommendation h s = (Inr r, cs)"
  shows "historicalLow r = Math_round (Fin (Min (price ` set (historicalData s)))) \<and>
         historicalLow r = Fin (of_int \<lfloor>Min (price ` set (historicalData s)) + 1 / 2\<rfloor>) \<and>
         (\<exists>d \<in> set (historicalData s). price d = Min (price ` set (historicalData s))) \<and>
         (\<forall>d \<in> set (historicalData s).
            Min (price ` set (historicalData s)) \<le> price d \<and>
            of_int \<lfloor>Min (price ` set (historicalData s)) + 1 / 2\<rfloor> \<le> price d + 1 / 2)"
proof -
  from assms have ne: "historicalData s \<noteq> []"
    and low: "historicalLow r = Math_round (Fin (Min (price ` set (historicalData s))))"
    by (elim getGasRecommendation_InrD, simp)+
  have "of_int \<lfloor>Min (price ` set (historicalData s)) + 1 / 2\<rfloor> \<le> price d + 1 / 2"
    if "d \<in> set (historicalData s)" for d
  proof -
    have "of_int \<lfloor>Min (price ` set (historicalData s)) + 1 / 2\<rfloor>
        \<le> Min (price ` set (historicalData s)) + 1 / 2"
      by (rule of_int_floor_le)
    also have "\<dots> \<le> price d + 1 / 2" using Min_price_le [OF that] by simp
    finally show ?thesis .
  qed
  with low Min_price_in [OF ne] show ?thesis by (simp add: Min_price_le)
qed

theorem historicalLow_rounded_minimum_witness:
  "map_sum id historicalLow (fst (getGasRecommendation utc_host example_state)) = Inr (Fin 6) \<and>
   map price (historicalData example_state) = [10, 12, 6]"
proof -
  have ev: "getGasRecommendation utc_host example_state =
      (Inr \<lparr>bestTime = ''5:00 - 6:00 UTC'', estimatedSavings = ''70.0%'',
            currentGwei = Fin 20, historicalLow = Fin 6,
            batchingRecommendation =
              ''Batching transactions recommended for optimal gas savings''\<rparr>,
       [GetFeeData])"
    by code_simp
  have prices: "map price (historicalData example_state) = [10, 12, 6]" by code_simp
  then have "price ` set (historicalData example_state) = {10, 12, 6}"
    by (simp only: set_map [symmetric] list.set)
  then have m: "Min (price ` set (historicalData example_state)) = 6" by simp
  from historicalLow_rounded_minimum [OF ev] m
  have "historicalLow
          \<lparr>bestTime = ''5:00 - 6:00 UTC'', estimatedSavings = ''70.0%'',
            currentGwei = Fin 20, historicalLow = Fin 6,
            batchingRecommendation =
              ''Batching transactions recommended for optimal gas savings''\<rparr> =
        Math_round (Fin 6)"
    by simp
  with ev prices show ?thesis by simp
qed




text \<open>
  C10. A block that is retrieved with \<^verbatim>\<open>baseFeePerGas\<close> \<^verbatim>\<open>null\<close> is not left out:
  \<^verbatim>\<open>initialize\<close> stores for it a sample of price 0. When no sample of the window has a
  negative price, that sample is the window minimum, and a recommendation computed from
  the window with a nonzero live price has \<open>historicalLow\<close> 0 and \<open>estimatedSavings\<close>
  \<^verbatim>\<open>100.0%\<close>.
\<close>

theorem null_base_fee_sample:
  assumes "getBlockNumber p = Inr head"
    and "\<forall>i<100. \<forall>e. getBlock p (head - int i) \<noteq> Inl e"
    and "k < 100" and "getBlock p (head - int k) = Inr (Some block)"
    and "baseFeePerGas block = None"
  shows "\<lparr>timestamp = block_timestamp block * 1000, price = 0, priority = rnd k * 2 + 1 / 2\<rparr>
           \<in> set (historicalData (fst (snd (initialize p rnd s)))) \<and>
         (\<forall>fd r cs.
            (\<forall>d \<in> set (historicalData (fst (snd (initialize p rnd s)))). 0 \<le> price d) \<and>
            getFeeData p = Inr fd \<and> Number (gasPrice fd) \<noteq> 0 \<and>
            getGasRecommendation h (fst (snd (initialize p rnd s))) = (Inr r, cs) \<longrightarrow>
            historicalLow r = Fin 0 \<and> estimatedSavings r = ''100.0%'')"
proof (intro conjI allI impI)
  let ?s' = "fst (snd (initialize p rnd s))"
  let ?d = "\<lparr>timestamp = block_timestamp block * 1000, price = 0, priority = rnd k * 2 + 1 / 2\<rparr>"
  have w: "historicalData ?s' = List.map_filter (sample_at p rnd head) [0..<100]"
    by (simp add: initialize_complete [OF assms(1,2)])
  from assms(4,5) have "sample_at p rnd head k = Some ?d" by (simp add: sample_at_def)
  moreover from assms(3) have "k \<in> set [0..<100]" by simp
  ultimately have "?d \<in> set (List.map_filter (sample_at p rnd head) [0..<100])"
    unfolding List.map_filter_def by force
  with w show mem: "?d \<in> set (historicalData ?s')" by simp
  fix fd r cs
  assume a: "(\<forall>d \<in> set (historicalData ?s'). 0 \<le> price d) \<and>
            getFeeData p = Inr fd \<and> Number (gasPrice fd) \<noteq> 0 \<and>
            getGasRecommendation h ?s' = (Inr r, cs)"
  then have nonneg: "\<forall>d \<in> set (historicalData ?s'). 0 \<le> price d"
    and fee: "getFeeData p = Inr fd" and nz: "Number (gasPrice fd) / 1000000000 \<noteq> 0"
    and ret: "getGasRecommendation h ?s' = (Inr r, cs)"
    by simp_all
  have "Min (price ` set (historicalData ?s')) = 0"
  proof (rule Min_eqI)
    show "finite (price ` set (historicalData ?s'))" by simp
    show "0 \<le> y" if "y \<in> price ` set (historicalData ?s')" for y
      using that nonneg by auto
    from mem have "price ?d \<in> price ` set (historicalData ?s')" by (rule imageI)
    then show "0 \<in> price ` set (historicalData ?s')" by simp
  qed
  moreover have prov: "provider ?s' = Some p" by (rule initialize_provider)
  ultimately have low: "historicalLow r = Math_round (Fin 0)"
    and sav: "estimatedSavings r =
       toFixed1 h
         (num_mul
            (num_div
               (num_sub (Fin (Number (gasPrice fd) / 1000000000)) (Fin 0))
               (Fin (Number (gasPrice fd) / 1000000000)))
            (Fin 100)) @ ''%''"
    using ret fee by (elim getGasRecommendation_InrD, simp)+
  have "Math_round (Fin 0) = Fin 0" by code_simp
  with low show "historicalLow r = Fin 0" by (simp only:)
  from sav nz show "estimatedSavings r = ''100.0%''" by (simp add: toFixed1_hundred)
qed

theorem null_base_fee_sample_witness:
  "map price (historicalData (fst (snd (initialize legacy_provider no_random new_GasOptimizer)))) =
     [0, 30] \<and>
   map_sum id historicalLow
     (fst (getGasRecommendation utc_host
        (fst (snd (initialize legacy_provider no_random new_GasOptimizer))))) = Inr (Fin 0) \<and>
   map_sum id estimatedSavings
     (fst (getGasRecommendation utc_host
        (fst (snd (initialize legacy_provider no_random new_GasOptimizer))))) = Inr ''100.0%''"
proof -
  let ?s' = "fst (snd (initialize legacy_provider no_random new_GasOptimizer))"
  have head: "getBlockNumber legacy_provider = Inr 5" by (simp add: legacy_provider_def)
  have ok: "\<forall>i<100. \<forall>e. getBlock legacy_provider (5 - int i) \<noteq> Inl e"
    by (simp add: legacy_provider_def legacy_getBlock_def)
  have k: "(0::nat) < 100" by simp
  have blk: "getBlock legacy_provider (5 - int 0) =
      Inr (Some \<lparr>block_timestamp = 1700000000, baseFeePerGas = None\<rparr>)"
    by (simp add: legacy_provider_def legacy_getBlock_def)
  have null: "baseFeePerGas \<lparr>block_timestamp = 1700000000, baseFeePerGas = None\<rparr> = None"
    by simp
  have prices: "map price (historicalData ?s') = [0, 30]" by code_simp
  have "\<forall>x \<in> set (map price (historicalData ?s')). 0 \<le> x"
    by (simp only: prices) simp
  then have nonneg: "\<forall>d \<in> set (historicalData ?s'). 0 \<le> price d" by simp
  have fee: "getFeeData legacy_provider = Inr \<lparr>gasPrice = Some 25000000000\<rparr>"
    by (simp add: legacy_provider_def)
  have nz: "Number (gasPrice \<lparr>gasPrice = Some 25000000000\<rparr>) \<noteq> 0" by simp
  have ev: "getGasRecommendation utc_host ?s' =
      (Inr \<lparr>bestTime = ''22:00 - 23:00 UTC'', estimatedSavings = ''100.0%'',
            currentGwei = Fin 25, historicalLow = Fin 0,
            batchingRecommendation =
              ''Batching transactions recommended for optimal gas savings''\<rparr>,
       [GetFeeData])"
    by code_simp
  from null_base_fee_sample [OF head ok k blk null, of no_random new_GasOptimizer utc_host]
    nonneg fee nz ev
  have "historicalLow
          \<lparr>bestTime = ''22:00 - 23:00 UTC'', estimatedSavings = ''100.0%'',
            currentGwei = Fin 25, historicalLow = Fin 0,
            batchingRecommendation =
              ''Batching transactions recommended for optimal gas savings''\<rparr> = Fin 0"
    by blast
  with ev prices show ?thesis by simp
qed

text \<open>
  C2, at a failing input. The host's local time is one hour ahead of UTC. The window
  holds one sample, of a block of 22:13:20 UTC, so the only hour of day with a sample is
  hour 22 in UTC. The recommendation names the local hour, 23, and labels it UTC.
\<close>

theorem bestTime_local_hour_labelled_UTC:
  "map timestamp (historicalData cheap_state) = [1700000000000] \<and>
   getUTCHours 1700000000000 = Some 22 \<and>
   getHours utc_plus_1_host 1700000000000 = Some 23 \<and>
   map_sum id bestTime (fst (getGasRecommendation utc_plus_1_host cheap_state)) =
     Inr ''23:00 - 0:00 UTC''"
  by code_simp

end
